theory Spec2Isabelle
  imports Complex_Main
begin

section \<open>JavaScript values\<close>

text \<open>
  The service receives parsed JSON bodies and handles them without any type check, so the
  payloads are modelled as untyped JavaScript values. A number is modelled by the rational it
  denotes (rounding to binary64 is outside the model); \<open>NaN\<close> and the infinities are separate
  values. A string is a list of bytes. An object is an association list, read with \<open>map_of\<close>.
\<close>

datatype jsnum = NaN | Infinity | NegInfinity | Fin rat

datatype jsval =
    JUndefined
  | JNull
  | JBool bool
  | JNum jsnum
  | JStr string
  | JArr "jsval list"
  | JObj "(string \<times> jsval) list"

text \<open>
  What can be thrown: the built-in errors of the language, \<open>new Error(message)\<close>, the
  repository's \<open>ResourceNotFoundException\<close> (by its message) and the driver's database error
  (by its \<open>code\<close>).
\<close>

datatype js_error =
    TypeError
  | RangeError
  | ReferenceError string
  | Error string
  | ResourceNotFound string
  | DatabaseError string

type_synonym 'a result = "js_error + 'a"

definition bind :: "'a result \<Rightarrow> ('a \<Rightarrow> 'b result) \<Rightarrow> 'b result" where
  "bind r f = (case r of Inl e \<Rightarrow> Inl e | Inr x \<Rightarrow> f x)"

text \<open>
  Two behaviours of the engine are left open by the language definition, or depend on the
  binary representation of numbers; they are parameters of the model:
  \<^item> \<open>Date_parse_other\<close>: what \<open>Date.parse\<close> makes of a string that is not one of the two
    ISO forms recognised below (\<open>None\<close> stands for \<open>NaN\<close>);
  \<^item> \<open>Number_toString_other\<close>: the decimal rendering of a number that is not an integer
    below \<open>10^21\<close> in magnitude.
\<close>

record engine =
  Date_parse_other :: "string \<Rightarrow> int option"
  Number_toString_other :: "rat \<Rightarrow> string"

subsection \<open>Property access, truthiness\<close>

text \<open>
  \<open>v.k\<close> for the field names the service reads (none of them is a built-in property of
  strings, arrays or numbers): a \<open>TypeError\<close> on \<open>undefined\<close> and \<open>null\<close>, the field's value
  on an object that has it, \<open>undefined\<close> otherwise.
\<close>

definition lookup :: "(string \<times> jsval) list \<Rightarrow> string \<Rightarrow> jsval" where
  "lookup kvs k = (case map_of kvs k of Some x \<Rightarrow> x | None \<Rightarrow> JUndefined)"

definition Get :: "jsval \<Rightarrow> string \<Rightarrow> jsval result" where
  "Get v k =
     (case v of
        JUndefined \<Rightarrow> Inl TypeError
      | JNull \<Rightarrow> Inl TypeError
      | JObj kvs \<Rightarrow> Inr (lookup kvs k)
      | _ \<Rightarrow> Inr JUndefined)"

fun ToBoolean :: "jsval \<Rightarrow> bool" where
  "ToBoolean JUndefined = False"
| "ToBoolean JNull = False"
| "ToBoolean (JBool b) = b"
| "ToBoolean (JNum n) = (n \<noteq> NaN \<and> n \<noteq> Fin 0)"
| "ToBoolean (JStr s) = (s \<noteq> [])"
| "ToBoolean (JArr xs) = True"
| "ToBoolean (JObj kvs) = True"

text \<open>\<open>a || b\<close>: the left operand when it is truthy, the right operand otherwise.\<close>

definition js_or :: "jsval \<Rightarrow> jsval \<Rightarrow> jsval" where
  "js_or a b = (if ToBoolean a then a else b)"

subsection \<open>Decimal digits\<close>

definition is_digit :: "char \<Rightarrow> bool" where
  "is_digit c = (48 \<le> (of_char c :: nat) \<and> (of_char c :: nat) \<le> 57)"

definition digit_val :: "char \<Rightarrow> nat" where
  "digit_val c = of_char c - 48"

definition digits_to_nat :: "string \<Rightarrow> nat" where
  "digits_to_nat s = foldl (\<lambda>a c. 10 * a + digit_val c) 0 s"

fun dec :: "nat \<Rightarrow> string" where
  "dec n = (if n < 10 then [char_of (48 + n)] else dec (n div 10) @ [char_of (48 + n mod 10)])"

declare dec.simps [simp del]

text \<open>\<open>s.padStart(k, '0')\<close>\<close>

definition padStart :: "nat \<Rightarrow> string \<Rightarrow> string" where
  "padStart k s = replicate (k - length s) (CHR ''0'') @ s"

definition is_space :: "char \<Rightarrow> bool" where
  "is_space c = ((of_char c :: nat) \<in> {9, 10, 11, 12, 13, 32})"

subsection \<open>ToString, parseInt, parseFloat\<close>

definition Number_toString :: "engine \<Rightarrow> jsnum \<Rightarrow> string" where
  "Number_toString eng n =
     (case n of
        NaN \<Rightarrow> ''NaN''
      | Infinity \<Rightarrow> ''Infinity''
      | NegInfinity \<Rightarrow> ''-Infinity''
      | Fin q \<Rightarrow>
          if of_int \<lfloor>q\<rfloor> = q \<and> \<bar>q\<bar> < 10 ^ 21
          then (if q < 0 then ''-'' else []) @ dec (nat \<bar>\<lfloor>q\<rfloor>\<bar>)
          else Number_toString_other eng q)"

fun join_comma :: "string list \<Rightarrow> string" where
  "join_comma [] = []"
| "join_comma [s] = s"
| "join_comma (s # t # ss) = s @ '','' @ join_comma (t # ss)"

fun ToString :: "engine \<Rightarrow> jsval \<Rightarrow> string" where
  "ToString eng JUndefined = ''undefined''"
| "ToString eng JNull = ''null''"
| "ToString eng (JBool b) = (if b then ''true'' else ''false'')"
| "ToString eng (JNum n) = Number_toString eng n"
| "ToString eng (JStr s) = s"
| "ToString eng (JArr xs) =
     join_comma (map (\<lambda>x. if x = JUndefined \<or> x = JNull then [] else ToString eng x) xs)"
| "ToString eng (JObj kvs) = ''[object Object]''"

text \<open>
  \<open>parseInt(v, 10)\<close>: the argument as a string, leading white space dropped, an optional
  sign, then the longest run of decimal digits; \<open>NaN\<close> when there is no digit. Of the white
  space characters only those of ASCII are recognised.
\<close>

definition parseInt :: "engine \<Rightarrow> jsval \<Rightarrow> jsnum" where
  "parseInt eng v =
     (let s = dropWhile is_space (ToString eng v);
          neg = (s \<noteq> [] \<and> hd s = CHR ''-'');
          r = (if s \<noteq> [] \<and> (hd s = CHR ''-'' \<or> hd s = CHR ''+'') then tl s else s);
          ds = takeWhile is_digit r
      in if ds = [] then NaN
         else Fin (of_int (if neg then - int (digits_to_nat ds) else int (digits_to_nat ds))))"

text \<open>
  \<open>parseFloat(v)\<close>: a number is returned as it is (its string form reads back as the same
  number); any other value is read as a string: white space, an optional sign, then
  \<open>Infinity\<close> or the longest prefix \<open>digits [. digits] [e [sign] digits]\<close>.
\<close>

definition exponent_of :: "string \<Rightarrow> int" where
  "exponent_of r =
     (if r \<noteq> [] \<and> (hd r = CHR ''e'' \<or> hd r = CHR ''E'') then
        (let t = tl r;
             neg = (t \<noteq> [] \<and> hd t = CHR ''-'');
             u = (if t \<noteq> [] \<and> (hd t = CHR ''-'' \<or> hd t = CHR ''+'') then tl t else t);
             ds = takeWhile is_digit u
         in if ds = [] then 0 else if neg then - int (digits_to_nat ds) else int (digits_to_nat ds))
      else 0)"

definition pow10 :: "int \<Rightarrow> rat" where
  "pow10 e = (if 0 \<le> e then 10 ^ nat e else 1 / 10 ^ nat (- e))"

definition parseFloat_string :: "string \<Rightarrow> jsnum" where
  "parseFloat_string str =
     (let s = dropWhile is_space str;
          neg = (s \<noteq> [] \<and> hd s = CHR ''-'');
          r = (if s \<noteq> [] \<and> (hd s = CHR ''-'' \<or> hd s = CHR ''+'') then tl s else s)
      in if take 8 r = ''Infinity'' then (if neg then NegInfinity else Infinity)
         else
           (let ip = takeWhile is_digit r;
                r1 = dropWhile is_digit r;
                fp = (if r1 \<noteq> [] \<and> hd r1 = CHR ''.'' then takeWhile is_digit (tl r1) else []);
                r2 = (if r1 \<noteq> [] \<and> hd r1 = CHR ''.'' then dropWhile is_digit (tl r1) else r1)
            in if ip = [] \<and> fp = [] then NaN
               else
                 (let m = of_nat (digits_to_nat (ip @ fp)) * pow10 (exponent_of r2 - int (length fp))
                  in Fin (if neg then - m else m))))"

definition parseFloat :: "engine \<Rightarrow> jsval \<Rightarrow> jsnum" where
  "parseFloat eng v = (case v of JNum n \<Rightarrow> n | _ \<Rightarrow> parseFloat_string (ToString eng v))"

section \<open>Dates\<close>

text \<open>
  A \<open>Date\<close> is its time value: milliseconds since 1970-01-01T00:00:00Z, or \<open>None\<close> for an
  invalid date. Days and calendar dates are converted in the proleptic Gregorian calendar.
\<close>

definition InLeapYear :: "int \<Rightarrow> bool" where
  "InLeapYear y =
     (if y mod 4 \<noteq> 0 then False else if y mod 100 \<noteq> 0 then True else y mod 400 = 0)"

definition DaysInMonth :: "int \<Rightarrow> int \<Rightarrow> int" where
  "DaysInMonth y m =
     (if m = 2 then (if InLeapYear y then 29 else 28)
      else if m = 4 \<or> m = 6 \<or> m = 9 \<or> m = 11 then 30 else 31)"

text \<open>The day number of year \<open>y\<close>, month \<open>m\<close> (1 to 12), day \<open>d\<close>; day 0 is 1970-01-01.\<close>

definition MakeDay :: "int \<Rightarrow> int \<Rightarrow> int \<Rightarrow> int" where
  "MakeDay y m d =
     (let y' = (if m \<le> 2 then y - 1 else y);
          era = y' div 400;
          yoe = y' mod 400;
          doy = (153 * (if m > 2 then m - 3 else m + 9) + 2) div 5 + d - 1;
          doe = yoe * 365 + yoe div 4 - yoe div 100 + doy
      in era * 146097 + doe - 719468)"

definition MakeTime :: "int \<Rightarrow> int \<Rightarrow> int \<Rightarrow> int \<Rightarrow> int" where
  "MakeTime h m s ms = h * 3600000 + m * 60000 + s * 1000 + ms"

definition MakeDate :: "int \<Rightarrow> int \<Rightarrow> int" where
  "MakeDate day time = day * 86400000 + time"

text \<open>The calendar date (year, month 1 to 12, day of month) of a day number.\<close>

definition YearMonthDate :: "int \<Rightarrow> int \<times> int \<times> int" where
  "YearMonthDate day =
     (let z = day + 719468;
          era = z div 146097;
          doe = z mod 146097;
          yoe = (doe - doe div 1460 + doe div 36524 - doe div 146096) div 365;
          doy = doe - (365 * yoe + yoe div 4 - yoe div 100);
          mp = (5 * doy + 2) div 153;
          d = doy - (153 * mp + 2) div 5 + 1;
          m = (if mp < 10 then mp + 3 else mp - 9);
          y = yoe + era * 400 + (if m \<le> 2 then 1 else 0)
      in (y, m, d))"

text \<open>
  \<open>TimeClip\<close>: a time value beyond 8.64e15 ms in magnitude is invalid; a fraction is cut
  towards zero.
\<close>

definition TimeClip :: "rat \<Rightarrow> int option" where
  "TimeClip q =
     (if \<bar>q\<bar> > 8640000000000000 then None
      else Some (if 0 \<le> q then \<lfloor>q\<rfloor> else - \<lfloor>- q\<rfloor>))"

subsection \<open>Date.parse\<close>

definition slice :: "nat \<Rightarrow> nat \<Rightarrow> string \<Rightarrow> string" where
  "slice i j s = take (j - i) (drop i s)"

text \<open>A field of exactly \<open>k\<close> decimal digits.\<close>

definition num_field :: "nat \<Rightarrow> string \<Rightarrow> int option" where
  "num_field k s =
     (if length s = k \<and> list_all is_digit s then Some (int (digits_to_nat s)) else None)"

text \<open>The offset \<open>Z\<close> or \<open>+HH:mm\<close> or \<open>-HH:mm\<close>, in minutes east of UTC.\<close>

definition parse_offset :: "string \<Rightarrow> int option" where
  "parse_offset z =
     (if z = ''Z'' then Some 0
      else if length z = 6 \<and> (z ! 0 = CHR ''+'' \<or> z ! 0 = CHR ''-'') \<and> z ! 3 = CHR '':'' then
        (case (num_field 2 (slice 1 3 z), num_field 2 (slice 4 6 z)) of
           (Some h, Some m) \<Rightarrow>
             if h < 24 \<and> m < 60
             then Some ((if z ! 0 = CHR ''-'' then - 1 else 1) * (h * 60 + m))
             else None
         | _ \<Rightarrow> None)
      else None)"

definition parse_date_fields :: "string \<Rightarrow> (int \<times> int \<times> int) option" where
  "parse_date_fields s =
     (if length s = 10 \<and> s ! 4 = CHR ''-'' \<and> s ! 7 = CHR ''-'' then
        (case (num_field 4 (slice 0 4 s), num_field 2 (slice 5 7 s), num_field 2 (slice 8 10 s)) of
           (Some y, Some m, Some d) \<Rightarrow>
             if 1 \<le> m \<and> m \<le> 12 \<and> 1 \<le> d \<and> d \<le> DaysInMonth y m then Some (y, m, d) else None
         | _ \<Rightarrow> None)
      else None)"

definition parse_time_fields :: "string \<Rightarrow> int option" where
  "parse_time_fields s =
     (if length s = 8 \<and> s ! 2 = CHR '':'' \<and> s ! 5 = CHR '':'' then
        (case (num_field 2 (slice 0 2 s), num_field 2 (slice 3 5 s), num_field 2 (slice 6 8 s)) of
           (Some h, Some m, Some sec) \<Rightarrow>
             if h < 24 \<and> m < 60 \<and> sec < 60 then Some (MakeTime h m sec 0) else None
         | _ \<Rightarrow> None)
      else None)"

text \<open>
  The two forms of the language's date-time string format that the model reads itself:
  \<open>YYYY-MM-DD\<close> (midnight UTC) and \<open>YYYY-MM-DDTHH:mm:ss[.sss]\<close> followed by \<open>Z\<close> or an
  offset. Every field must be in range.
\<close>

definition parse_iso :: "string \<Rightarrow> int option" where
  "parse_iso s =
     (case parse_date_fields (take 10 s) of
        None \<Rightarrow> None
      | Some (y, m, d) \<Rightarrow>
          if length s = 10 then Some (MakeDate (MakeDay y m d) 0)
          else if s ! 10 \<noteq> CHR ''T'' then None
          else
            (case parse_time_fields (slice 11 19 s) of
               None \<Rightarrow> None
             | Some t \<Rightarrow>
                 (let frac = (19 < length s \<and> s ! 19 = CHR ''.'');
                      ms = (if frac then num_field 3 (slice 20 23 s) else Some 0);
                      z = (if frac then drop 23 s else drop 19 s)
                  in case (ms, parse_offset z) of
                       (Some ms', Some off) \<Rightarrow>
                         Some (MakeDate (MakeDay y m d) (t + ms') - off * 60000)
                     | _ \<Rightarrow> None)))"

definition Date_parse :: "engine \<Rightarrow> string \<Rightarrow> int option" where
  "Date_parse eng s =
     (case parse_iso s of
        Some t \<Rightarrow> Some t
      | None \<Rightarrow>
          (case Date_parse_other eng s of
             None \<Rightarrow> None
           | Some t \<Rightarrow> TimeClip (of_int t)))"

text \<open>
  \<open>new Date(v)\<close> with one argument: a string is parsed, an array or object is first turned
  into its string, anything else is taken as a number of milliseconds (\<open>undefined\<close> is
  \<open>NaN\<close>, \<open>null\<close> is 0).
\<close>

definition Date_new :: "engine \<Rightarrow> jsval \<Rightarrow> int option" where
  "Date_new eng v =
     (case v of
        JUndefined \<Rightarrow> None
      | JNull \<Rightarrow> Some 0
      | JBool b \<Rightarrow> Some (if b then 1 else 0)
      | JNum n \<Rightarrow> (case n of Fin q \<Rightarrow> TimeClip q | _ \<Rightarrow> None)
      | JStr s \<Rightarrow> Date_parse eng s
      | _ \<Rightarrow> Date_parse eng (ToString eng v))"

subsection \<open>Date.prototype.toISOString\<close>

definition pad :: "nat \<Rightarrow> int \<Rightarrow> string" where
  "pad k n = padStart k (dec (nat n))"

definition ISOString :: "int \<Rightarrow> string" where
  "ISOString t =
     (let day = t div 86400000;
          time = t mod 86400000;
          (y, m, d) = YearMonthDate day;
          year = (if 0 \<le> y \<and> y \<le> 9999 then pad 4 y
                  else (if y < 0 then ''-'' else ''+'') @ pad 6 \<bar>y\<bar>)
      in year @ ''-'' @ pad 2 m @ ''-'' @ pad 2 d @ ''T'' @
         pad 2 (time div 3600000) @ '':'' @ pad 2 (time div 60000 mod 60) @ '':'' @
         pad 2 (time div 1000 mod 60) @ ''.'' @ pad 3 (time mod 1000) @ ''Z'')"

text \<open>\<open>toISOString\<close> throws a \<open>RangeError\<close> on an invalid date.\<close>

definition toISOString :: "int option \<Rightarrow> string result" where
  "toISOString d = (case d of None \<Rightarrow> Inl RangeError | Some t \<Rightarrow> Inr (ISOString t))"

section \<open>The mapper\<close>

text \<open>
  The mapped order and the formatted response have the same shape and field names; they
  differ in the types of the product id and of the amounts.
\<close>

record ('p, 'n) item =
  productId :: 'p
  quantity :: jsval
  price :: 'n

record ('p, 'n) order =
  orderId :: string
  "value" :: 'n
  creationDate :: string
  items :: "('p, 'n) item list"

type_synonym mapped_item = "(jsnum, jsval) item"
type_synonym mapped_order = "(jsnum, jsval) order"

text \<open>
  \<open>x.split('-')[0]\<close>: on a string, the part before the first hyphen (the whole string when
  there is none). No other JSON value has a callable \<open>split\<close>, so the call throws a
  \<open>TypeError\<close>.
\<close>

definition split_first :: "jsval \<Rightarrow> string result" where
  "split_first x =
     (case x of JStr s \<Rightarrow> Inr (takeWhile (\<lambda>c. c \<noteq> CHR ''-'') s) | _ \<Rightarrow> Inl TypeError)"

text \<open>The callback of \<open>inputOrder.items.map\<close>.\<close>

definition transform_item :: "engine \<Rightarrow> jsval \<Rightarrow> mapped_item result" where
  "transform_item eng item =
     bind (Get item ''idItem'') (\<lambda>idItem.
     bind (Get item ''quantidadeItem'') (\<lambda>quantidadeItem.
     bind (Get item ''valorItem'') (\<lambda>valorItem.
     Inr \<lparr>productId = parseInt eng idItem, quantity = quantidadeItem, price = valorItem\<rparr>)))"

text \<open>\<open>xs.map(f)\<close> with a callback that may throw: the first exception ends the call.\<close>

fun map_result :: "('a \<Rightarrow> 'b result) \<Rightarrow> 'a list \<Rightarrow> 'b list result" where
  "map_result f [] = Inr []"
| "map_result f (x # xs) =
     bind (f x) (\<lambda>y. bind (map_result f xs) (\<lambda>ys. Inr (y # ys)))"

text \<open>Only an array has a callable \<open>map\<close> among the JSON values.\<close>

definition Array_map :: "(jsval \<Rightarrow> 'b result) \<Rightarrow> jsval \<Rightarrow> 'b list result" where
  "Array_map f v = (case v of JArr xs \<Rightarrow> map_result f xs | _ \<Rightarrow> Inl TypeError)"

definition mapToDatabaseFormat :: "engine \<Rightarrow> jsval \<Rightarrow> mapped_order result" where
  "mapToDatabaseFormat eng inputOrder =
     bind (Get inputOrder ''numeroPedido'') (\<lambda>numeroPedido.
     bind (split_first numeroPedido) (\<lambda>orderId'.
     bind (Get inputOrder ''dataCriacao'') (\<lambda>dataCriacao.
     bind (toISOString (Date_new eng dataCriacao)) (\<lambda>creationDate'.
     bind (Get inputOrder ''items'') (\<lambda>items'.
     bind (Array_map (transform_item eng) items') (\<lambda>transformedItems.
     bind (Get inputOrder ''valorTotal'') (\<lambda>valorTotal.
     Inr \<lparr>orderId = orderId', value = valorTotal, creationDate = creationDate',
          items = transformedItems\<rparr>)))))))"

section \<open>The store\<close>

text \<open>
  Modelled from the spec: the schema of the two tables, which the source does not contain.
  It is \<open>Orders(orderId PK, value, creationDate)\<close> and \<open>Items(itemId PK, orderId FK,
  productId, quantity, price)\<close>, item rows removed with their order. A row is what a
  \<open>SELECT\<close> hands back: column names in lower case, the creation date as a \<open>Date\<close> (its
  time value), the product id as an integer. The surrogate key \<open>itemId\<close> is never read by
  the service and is left out. The statements' texts are in \<open>OrderModel.js\<close>; their meaning
  on the tables is written out below. Of the store's checks, only the primary key, the
  foreign key and the readability of timestamps and integers are modelled; any other
  rejection is one of the driver's faults (see \<open>faults\<close> below).
\<close>

record order_row =
  o_orderid :: string
  o_value :: jsval
  o_creationdate :: int

record item_row =
  i_orderid :: string
  i_productid :: int
  i_quantity :: jsval
  i_price :: jsval

record db =
  Orders :: "order_row list"
  Items :: "item_row list"

record 'r query_result =
  rows :: "'r list"
  rowCount :: nat

type_synonym 'r statement = "db \<Rightarrow> ('r query_result \<times> db) result"

text \<open>The driver sends \<open>undefined\<close> as \<open>NULL\<close>.\<close>

definition prepareValue :: "jsval \<Rightarrow> jsval" where
  "prepareValue v = (if v = JUndefined then JNull else v)"

definition has_order :: "db \<Rightarrow> string \<Rightarrow> bool" where
  "has_order d oid = (oid \<in> o_orderid ` set (Orders d))"

text \<open>
  \<open>INSERT INTO Orders (orderId, value, creationDate) VALUES ($1, $2, $3)\<close>: the timestamp
  must be readable (error 22007), the key must be new (error 23505, the code the controller
  maps to a conflict).
\<close>

definition insert_order_sql :: "string \<Rightarrow> jsval \<Rightarrow> string \<Rightarrow> unit statement" where
  "insert_order_sql oid v cd d =
     (case parse_iso cd of
        None \<Rightarrow> Inl (DatabaseError ''22007'')
      | Some t \<Rightarrow>
          if has_order d oid then Inl (DatabaseError ''23505'')
          else Inr (\<lparr>rows = [], rowCount = 1\<rparr>,
                    d\<lparr>Orders := Orders d @
                       [\<lparr>o_orderid = oid, o_value = prepareValue v, o_creationdate = t\<rparr>]\<rparr>))"

text \<open>
  \<open>INSERT INTO Items (orderId, productId, quantity, price) VALUES ($1, $2, $3, $4)\<close>: the
  product id must be an integer (error 22P02), the order must exist (error 23503).
\<close>

definition insert_item_sql :: "string \<Rightarrow> jsnum \<Rightarrow> jsval \<Rightarrow> jsval \<Rightarrow> unit statement" where
  "insert_item_sql oid pid q p d =
     (case pid of
        Fin n \<Rightarrow>
          if of_int \<lfloor>n\<rfloor> \<noteq> n then Inl (DatabaseError ''22P02'')
          else if \<not> has_order d oid then Inl (DatabaseError ''23503'')
          else Inr (\<lparr>rows = [], rowCount = 1\<rparr>,
                    d\<lparr>Items := Items d @
                       [\<lparr>i_orderid = oid, i_productid = \<lfloor>n\<rfloor>, i_quantity = prepareValue q,
                         i_price = prepareValue p\<rparr>]\<rparr>)
      | _ \<Rightarrow> Inl (DatabaseError ''22P02''))"

text \<open>\<open>SELECT orderId, value, creationDate FROM Orders WHERE orderId = $1\<close>\<close>

definition select_order_sql :: "string \<Rightarrow> order_row statement" where
  "select_order_sql oid d =
     (let rs = filter (\<lambda>r. o_orderid r = oid) (Orders d)
      in Inr (\<lparr>rows = rs, rowCount = length rs\<rparr>, d))"

text \<open>\<open>SELECT productId, quantity, price FROM Items WHERE orderId = $1\<close>\<close>

definition select_items_sql :: "string \<Rightarrow> item_row statement" where
  "select_items_sql oid d =
     (let rs = filter (\<lambda>r. i_orderid r = oid) (Items d)
      in Inr (\<lparr>rows = rs, rowCount = length rs\<rparr>, d))"

text \<open>
  \<open>UPDATE Orders SET value = $1, creationDate = $2 WHERE orderId = $3 RETURNING orderId\<close>
\<close>

definition update_order_sql :: "jsval \<Rightarrow> string \<Rightarrow> string \<Rightarrow> string statement" where
  "update_order_sql v cd oid d =
     (case parse_iso cd of
        None \<Rightarrow> Inl (DatabaseError ''22007'')
      | Some t \<Rightarrow>
          (let hit = (\<lambda>r. o_orderid r = oid);
               rs = filter hit (Orders d)
           in Inr (\<lparr>rows = map o_orderid rs, rowCount = length rs\<rparr>,
                   d\<lparr>Orders := map (\<lambda>r. if hit r
                                          then r\<lparr>o_value := prepareValue v, o_creationdate := t\<rparr>
                                          else r) (Orders d)\<rparr>)))"

text \<open>
  \<open>UPDATE Items SET quantity = $1, price = $2 WHERE orderId = $3 AND productId = $4
  RETURNING itemId\<close>: every row of that order and product is updated and counted; the
  returned rows are not read by the service.
\<close>

definition update_item_sql :: "jsval \<Rightarrow> jsval \<Rightarrow> string \<Rightarrow> int \<Rightarrow> unit statement" where
  "update_item_sql q p oid pid d =
     (let hit = (\<lambda>r. i_orderid r = oid \<and> i_productid r = pid);
          rs = filter hit (Items d)
      in Inr (\<lparr>rows = map (\<lambda>r. ()) rs, rowCount = length rs\<rparr>,
              d\<lparr>Items := map (\<lambda>r. if hit r
                                   then r\<lparr>i_quantity := prepareValue q, i_price := prepareValue p\<rparr>
                                   else r) (Items d)\<rparr>))"

text \<open>
  \<open>DELETE FROM Orders WHERE orderId = $1\<close>: the count is that of the header rows removed; the
  order's item rows go with it, by the cascade the schema declares.
\<close>

definition delete_order_sql :: "string \<Rightarrow> unit statement" where
  "delete_order_sql oid d =
     (let rs = filter (\<lambda>r. o_orderid r = oid) (Orders d)
      in Inr (\<lparr>rows = [], rowCount = length rs\<rparr>,
              \<lparr>Orders = filter (\<lambda>r. o_orderid r \<noteq> oid) (Orders d),
               Items = (if rs = [] then Items d
                        else filter (\<lambda>r. i_orderid r \<noteq> oid) (Items d))\<rparr>))"

section \<open>The driver\<close>

text \<open>
  The world a workflow runs in: the committed tables, the working copy of the transaction
  open on the acquired client (\<open>None\<close>: no transaction open), and two records of the run.
  Every awaited call of the driver may be rejected for reasons outside the program (a lost
  connection, a constraint of the schema that is not modelled): \<open>faults\<close> holds, call by
  call, the error to reject with, or \<open>None\<close> to let the call through; past its end every
  call goes through. \<open>trace\<close> lists the driver calls made, in order.
\<close>

datatype event = Connect | Release | ClientQuery string | PoolQuery string

record world =
  store :: db
  tx :: "db option"
  faults :: "js_error option list"
  trace :: "event list"

type_synonym 'a action = "world \<Rightarrow> 'a result \<times> world"

definition next_fault :: "world \<Rightarrow> js_error option" where
  "next_fault w = (case faults w of [] \<Rightarrow> None | f # fs \<Rightarrow> f)"

definition called :: "event list \<Rightarrow> world \<Rightarrow> world" where
  "called evs w = w\<lparr>faults := tl (faults w), trace := trace w @ evs\<rparr>"

text \<open>
  Modelled from the spec: \<open>pool\<close> of \<open>config/db\<close>, a file the source does not contain, is
  the driver's connection pool. \<open>await pool.connect()\<close> gives a client with no transaction
  open, or is rejected.
\<close>

definition pool_connect :: "unit action" where
  "pool_connect w =
     (case next_fault w of
        Some e \<Rightarrow> (Inl e, called [] w)
      | None \<Rightarrow> (Inr (), (called [Connect] w)\<lparr>tx := None\<rparr>))"

text \<open>\<open>client.release()\<close>\<close>

definition client_release :: "world \<Rightarrow> world" where
  "client_release w = w\<lparr>tx := None, trace := trace w @ [Release]\<rparr>"

text \<open>
  \<open>await client.query(sql, params)\<close>: inside a transaction the statement works on the
  transaction's copy, outside it is committed at once.
\<close>

definition client_query :: "string \<Rightarrow> 'r statement \<Rightarrow> 'r query_result action" where
  "client_query sql run w =
     (let w1 = called [ClientQuery sql] w
      in case next_fault w of
           Some e \<Rightarrow> (Inl e, w1)
         | None \<Rightarrow>
             (case tx w of
                Some d \<Rightarrow>
                  (case run d of
                     Inl e \<Rightarrow> (Inl e, w1)
                   | Inr (r, d') \<Rightarrow> (Inr r, w1\<lparr>tx := Some d'\<rparr>))
              | None \<Rightarrow>
                  (case run (store w) of
                     Inl e \<Rightarrow> (Inl e, w1)
                   | Inr (r, d') \<Rightarrow> (Inr r, w1\<lparr>store := d'\<rparr>))))"

text \<open>\<open>await client.query('BEGIN')\<close>, \<open>'COMMIT'\<close> and \<open>'ROLLBACK'\<close>\<close>

definition client_begin :: "unit action" where
  "client_begin w =
     (let w1 = called [ClientQuery ''BEGIN''] w
      in case next_fault w of
           Some e \<Rightarrow> (Inl e, w1)
         | None \<Rightarrow> (Inr (), w1\<lparr>tx := Some (case tx w of Some d \<Rightarrow> d | None \<Rightarrow> store w)\<rparr>))"

definition client_commit :: "unit action" where
  "client_commit w =
     (let w1 = called [ClientQuery ''COMMIT''] w
      in case next_fault w of
           Some e \<Rightarrow> (Inl e, w1)
         | None \<Rightarrow>
             (Inr (), w1\<lparr>store := (case tx w of Some d \<Rightarrow> d | None \<Rightarrow> store w), tx := None\<rparr>))"

definition client_rollback :: "unit action" where
  "client_rollback w =
     (let w1 = called [ClientQuery ''ROLLBACK''] w
      in case next_fault w of
           Some e \<Rightarrow> (Inl e, w1)
         | None \<Rightarrow> (Inr (), w1\<lparr>tx := None\<rparr>))"

text \<open>
  Modelled from the spec: \<open>query\<close> of \<open>config/db\<close>, a file the source does not contain,
  runs one statement outside any transaction: on a pooled connection of its own, committed
  at once.
\<close>

definition query :: "string \<Rightarrow> 'r statement \<Rightarrow> 'r query_result action" where
  "query sql run w =
     (let w1 = called [PoolQuery sql] w
      in case next_fault w of
           Some e \<Rightarrow> (Inl e, w1)
         | None \<Rightarrow>
             (case run (store w) of
                Inl e \<Rightarrow> (Inl e, w1)
              | Inr (r, d') \<Rightarrow> (Inr r, w1\<lparr>store := d'\<rparr>)))"

subsection \<open>Sequencing\<close>

definition return :: "'a \<Rightarrow> 'a action" where
  "return x w = (Inr x, w)"

definition throw :: "js_error \<Rightarrow> 'a action" where
  "throw e w = (Inl e, w)"

text \<open>\<open>const x = await m; ...\<close>: the rest runs only when \<open>m\<close> did not throw.\<close>

definition await :: "'a action \<Rightarrow> ('a \<Rightarrow> 'b action) \<Rightarrow> 'b action" where
  "await m f w = (case m w of (Inl e, w') \<Rightarrow> (Inl e, w') | (Inr x, w') \<Rightarrow> f x w')"

text \<open>
  The block every write workflow is built on:
  \<^verbatim>\<open>try { body } catch (error) { await client.query('ROLLBACK'); throw error; }
  finally { client.release(); }\<close>
  When the \<open>ROLLBACK\<close> itself is rejected, its error leaves the \<open>catch\<close> block in place of
  \<open>error\<close>.
\<close>

definition try_rollback_release :: "'a action \<Rightarrow> 'a action" where
  "try_rollback_release body w =
     (case body w of
        (Inr x, w1) \<Rightarrow> (Inr x, client_release w1)
      | (Inl error, w1) \<Rightarrow>
          (case client_rollback w1 of
             (Inl e', w2) \<Rightarrow> (Inl e', client_release w2)
           | (Inr u, w2) \<Rightarrow> (Inl error, client_release w2)))"

section \<open>OrderModel.js\<close>

definition insertOrder :: "mapped_order \<Rightarrow> unit query_result action" where
  "insertOrder orderData =
     client_query ''INSERT INTO Orders''
       (insert_order_sql (orderId orderData) (value orderData) (creationDate orderData))"

definition insertOrderItem :: "string \<Rightarrow> mapped_item \<Rightarrow> unit query_result action" where
  "insertOrderItem oid item =
     client_query ''INSERT INTO Items''
       (insert_item_sql oid (productId item) (quantity item) (price item))"

definition findOrderById :: "string \<Rightarrow> order_row query_result action" where
  "findOrderById oid = query ''SELECT FROM Orders'' (select_order_sql oid)"

definition findItemsByOrderId :: "string \<Rightarrow> item_row query_result action" where
  "findItemsByOrderId oid = query ''SELECT FROM Items'' (select_items_sql oid)"

definition updateOrderHeader :: "string \<Rightarrow> mapped_order \<Rightarrow> string query_result action" where
  "updateOrderHeader oid orderData =
     client_query ''UPDATE Orders''
       (update_order_sql (value orderData) (creationDate orderData) oid)"

record itemData =
  new_quantity :: jsval
  new_price :: jsval

definition updateOrderItem :: "string \<Rightarrow> int \<Rightarrow> itemData \<Rightarrow> unit query_result action" where
  "updateOrderItem oid pid item =
     client_query ''UPDATE Items'' (update_item_sql (new_quantity item) (new_price item) oid pid)"

definition deleteOrderHeader :: "string \<Rightarrow> unit query_result action" where
  "deleteOrderHeader oid = query ''DELETE FROM Orders'' (delete_order_sql oid)"

section \<open>ResourceNotFoundException.js\<close>

text \<open>
  The class sets the message
  \<^verbatim>\<open>`${resourceName} com identificador "${identifier}" n..o foi encontrado.`\<close>,
  the name \<open>ResourceNotFoundException\<close> and the status code 404. Bytes outside ASCII are
  written by their codes.
\<close>

definition ResourceNotFoundException :: "string \<Rightarrow> string \<Rightarrow> js_error" where
  "ResourceNotFoundException resourceName identifier =
     ResourceNotFound
       (resourceName @ '' com identificador '' @ [CHR 0x22] @ identifier @ [CHR 0x22] @
        '' n'' @ [CHR 0xC3, CHR 0xA3] @ ''o foi encontrado.'')"

section \<open>OrderService.js\<close>

text \<open>
  The names bound in the module: its two \<open>require\<close>d names and its own functions. The module
  never requires \<open>ResourceNotFoundException.js\<close>, and no module of the program defines a
  global of that name.
\<close>

definition OrderService_scope :: "string list" where
  "OrderService_scope =
     [''OrderModel'', ''mapToDatabaseFormat'', ''formatOrderResponse'', ''createOrder'',
      ''getOrderDetails'', ''listAllOrders'', ''updateOrder'', ''updateItemOrder'',
      ''deleteOrder'']"

text \<open>
  \<open>new ResourceNotFoundException(resourceName, identifier)\<close> evaluated inside
  \<open>OrderService.js\<close>: the constructor's name is resolved first, and a name that is not bound
  is a \<open>ReferenceError\<close>.
\<close>

definition new_ResourceNotFoundException :: "string \<Rightarrow> string \<Rightarrow> js_error" where
  "new_ResourceNotFoundException resourceName identifier =
     (if ''ResourceNotFoundException'' \<in> set OrderService_scope
      then ResourceNotFoundException resourceName identifier
      else ReferenceError ''ResourceNotFoundException'')"

definition formatOrderResponse ::
    "engine \<Rightarrow> order_row \<Rightarrow> item_row list \<Rightarrow> (int, jsnum) order" where
  "formatOrderResponse eng orderRow itemRows =
     \<lparr>orderId = o_orderid orderRow,
      value = parseFloat eng (o_value orderRow),
      creationDate = ISOString (o_creationdate orderRow),
      items = map (\<lambda>item. \<lparr>productId = i_productid item,
                            quantity = i_quantity item,
                            price = parseFloat eng (i_price item)\<rparr>) itemRows\<rparr>"

subsection \<open>createOrder\<close>

text \<open>\<open>for (const item of mappedData.items) await insertOrderItem(client, orderId, item)\<close>\<close>

fun insert_items :: "string \<Rightarrow> mapped_item list \<Rightarrow> unit action" where
  "insert_items oid [] = return ()"
| "insert_items oid (item # rest) =
     await (insertOrderItem oid item) (\<lambda>r. insert_items oid rest)"

record created =
  created_orderId :: string
  created_data :: mapped_order

definition createOrder_try :: "mapped_order \<Rightarrow> created action" where
  "createOrder_try mappedData =
     await client_begin (\<lambda>b.
     await (insertOrder mappedData) (\<lambda>r.
     await (insert_items (orderId mappedData) (items mappedData)) (\<lambda>u.
     await client_commit (\<lambda>c.
     return \<lparr>created_orderId = orderId mappedData, created_data = mappedData\<rparr>))))"

definition createOrder :: "engine \<Rightarrow> jsval \<Rightarrow> created action" where
  "createOrder eng inputBody =
     (case mapToDatabaseFormat eng inputBody of
        Inl e \<Rightarrow> throw e
      | Inr mappedData \<Rightarrow>
          await pool_connect (\<lambda>client. try_rollback_release (createOrder_try mappedData)))"

subsection \<open>getOrderDetails\<close>

definition getOrderDetails :: "engine \<Rightarrow> string \<Rightarrow> (int, jsnum) order action" where
  "getOrderDetails eng oid =
     await (findOrderById oid) (\<lambda>orderResult.
     if length (rows orderResult) = 0 then throw (new_ResourceNotFoundException ''Pedido'' oid)
     else
       await (findItemsByOrderId oid) (\<lambda>itemsResult.
       return (formatOrderResponse eng (hd (rows orderResult)) (rows itemsResult))))"

subsection \<open>updateOrder\<close>

definition updateOrder_try :: "string \<Rightarrow> mapped_order \<Rightarrow> bool action" where
  "updateOrder_try oid mappedData =
     await client_begin (\<lambda>b.
     await (findOrderById oid) (\<lambda>ord.
     if length (rows ord) = 0 then throw (new_ResourceNotFoundException ''Pedido'' oid)
     else
       await (updateOrderHeader oid mappedData) (\<lambda>r.
       await client_commit (\<lambda>c.
       return True))))"

definition updateOrder :: "engine \<Rightarrow> string \<Rightarrow> jsval \<Rightarrow> bool action" where
  "updateOrder eng oid inputBody =
     (case mapToDatabaseFormat eng inputBody of
        Inl e \<Rightarrow> throw e
      | Inr mappedData \<Rightarrow>
          await pool_connect (\<lambda>client. try_rollback_release (updateOrder_try oid mappedData)))"

subsection \<open>updateItemOrder\<close>

text \<open>
  The message of the validation error:
  \<^verbatim>\<open>Dados de atualiza....o do item inv..lidos: 'quantidadeItem' ou 'valorItem' s..o obrigat..rios.\<close>
\<close>

definition invalid_item_message :: string where
  "invalid_item_message =
     ''Dados de atualiza'' @ [CHR 0xC3, CHR 0xA7, CHR 0xC3, CHR 0xA3] @ ''o do item inv'' @
     [CHR 0xC3, CHR 0xA1] @ ''lidos: '' @ [CHR 0x27] @ ''quantidadeItem'' @ [CHR 0x27] @
     '' ou '' @ [CHR 0x27] @ ''valorItem'' @ [CHR 0x27] @ '' s'' @ [CHR 0xC3, CHR 0xA3] @
     ''o obrigat'' @ [CHR 0xC3, CHR 0xB3] @ ''rios.''"

text \<open>\<open>body.a || body.b\<close>: the second field is read only when the first is falsy.\<close>

definition either_field :: "jsval \<Rightarrow> string \<Rightarrow> string \<Rightarrow> jsval result" where
  "either_field body a b =
     bind (Get body a) (\<lambda>x. if ToBoolean x then Inr x else Get body b)"

definition read_itemData :: "jsval \<Rightarrow> itemData result" where
  "read_itemData inputItemBody =
     bind (either_field inputItemBody ''quantidadeItem'' ''quantity'') (\<lambda>q.
     bind (either_field inputItemBody ''valorItem'' ''price'') (\<lambda>p.
     Inr \<lparr>new_quantity = q, new_price = p\<rparr>))"

definition show_int :: "int \<Rightarrow> string" where
  "show_int i = (if i < 0 then ''-'' else []) @ dec (nat \<bar>i\<bar>)"

definition updateItemOrder_try :: "string \<Rightarrow> int \<Rightarrow> itemData \<Rightarrow> bool action" where
  "updateItemOrder_try oid pid item =
     await client_begin (\<lambda>b.
     await (updateOrderItem oid pid item) (\<lambda>updateResult.
     if rowCount updateResult = 0
     then throw (new_ResourceNotFoundException (''Item '' @ show_int pid @ '' no Pedido'') oid)
     else
       await client_commit (\<lambda>c.
       return (rowCount updateResult > 0))))"

definition updateItemOrder :: "string \<Rightarrow> int \<Rightarrow> jsval \<Rightarrow> bool action" where
  "updateItemOrder oid pid inputItemBody =
     (case read_itemData inputItemBody of
        Inl e \<Rightarrow> throw e
      | Inr item \<Rightarrow>
          if new_quantity item = JUndefined \<or> new_price item = JUndefined
          then throw (Error invalid_item_message)
          else
            await (findOrderById oid) (\<lambda>orderResult.
            if length (rows orderResult) = 0
            then throw (new_ResourceNotFoundException ''Pedido'' oid)
            else
              await pool_connect (\<lambda>client.
              try_rollback_release (updateItemOrder_try oid pid item))))"

subsection \<open>deleteOrder\<close>

definition deleteOrder :: "string \<Rightarrow> unit action" where
  "deleteOrder oid =
     await (deleteOrderHeader oid) (\<lambda>result.
     if rowCount result = 0 then throw (new_ResourceNotFoundException ''Pedido'' oid)
     else return ())"

section \<open>Notions used in the statements\<close>

text \<open>
  An engine that reads no date beyond the two ISO forms, used where a statement needs a
  concrete engine.
\<close>

definition strict_engine :: engine where
  "strict_engine = \<lparr>Date_parse_other = (\<lambda>s. None), Number_toString_other = (\<lambda>q. [])\<rparr>"

text \<open>
  Sample data: the example payload of the specification, a store that already holds that
  order, and a world at rest over given tables and given faults.
\<close>

definition example_payload :: jsval where
  "example_payload =
     JObj [(''numeroPedido'', JStr ''1001-01''),
           (''dataCriacao'', JStr ''2024-01-01T00:00:00+00:00''),
           (''valorTotal'', JNum (Fin (199 / 2))),
           (''items'', JArr [JObj [(''idItem'', JStr ''7''),
                                   (''quantidadeItem'', JNum (Fin 2)),
                                   (''valorItem'', JNum (Fin 10))]])]"

definition example_db :: db where
  "example_db =
     \<lparr>Orders = [\<lparr>o_orderid = ''1001'', o_value = JStr ''99.50'',
                  o_creationdate = 1704067200000\<rparr>],
      Items = [\<lparr>i_orderid = ''1001'', i_productid = 7, i_quantity = JNum (Fin 2),
                 i_price = JStr ''10.00''\<rparr>]\<rparr>"

definition fresh :: "db \<Rightarrow> js_error option list \<Rightarrow> world" where
  "fresh d fs = \<lparr>store = d, tx = None, faults = fs, trace = []\<rparr>"

text \<open>The rows that the two \<open>INSERT\<close> statements make of a mapped order and of its items.\<close>

definition order_row_of :: "mapped_order \<Rightarrow> int \<Rightarrow> order_row" where
  "order_row_of m t =
     \<lparr>o_orderid = orderId m, o_value = prepareValue (value m), o_creationdate = t\<rparr>"

definition item_row_of :: "string \<Rightarrow> mapped_item \<Rightarrow> item_row" where
  "item_row_of oid item =
     \<lparr>i_orderid = oid,
      i_productid = (case productId item of Fin n \<Rightarrow> \<lfloor>n\<rfloor> | _ \<Rightarrow> 0),
      i_quantity = prepareValue (quantity item),
      i_price = prepareValue (price item)\<rparr>"

text \<open>An action that neither acquires nor releases a client.\<close>

definition silent :: "'a action \<Rightarrow> bool" where
  "silent m =
     (\<forall>w. \<exists>evs. trace (snd (m w)) = trace w @ evs \<and> Connect \<notin> set evs \<and> Release \<notin> set evs)"

text \<open>
  What a run may add to the trace: either no client is acquired and none released, or
  exactly one is acquired and its release is the last event; when the run failed, the call
  just before the release is the \<open>ROLLBACK\<close>. \<open>before\<close> is the trace at the start of the run,
  \<open>after\<close> the trace at its end.
\<close>

definition connection_scoped :: "event list \<Rightarrow> event list \<Rightarrow> bool \<Rightarrow> bool" where
  "connection_scoped before after failed =
     (let evs = drop (length before) after;
          pre = takeWhile (\<lambda>e. e \<noteq> Connect) evs;
          rest = drop (Suc (length pre)) evs;
          mid = butlast rest
      in take (length before) after = before \<and> Release \<notin> set pre \<and>
         (Connect \<in> set evs \<longrightarrow>
            rest \<noteq> [] \<and> last rest = Release \<and> Connect \<notin> set mid \<and> Release \<notin> set mid \<and>
            (failed \<longrightarrow> mid \<noteq> [] \<and> last mid = ClientQuery ''ROLLBACK'')))"

section \<open>Properties of the driver\<close>

lemma called_simps [simp]:
  "store (called evs w) = store w" "tx (called evs w) = tx w"
  "trace (called evs w) = trace w @ evs"
  by (simp_all add: called_def)

lemma trace_client_query: "trace (snd (client_query sql run w)) = trace w @ [ClientQuery sql]"
  by (simp add: client_query_def Let_def split: option.splits sum.splits prod.splits)

lemma trace_query: "trace (snd (query sql run w)) = trace w @ [PoolQuery sql]"
  by (simp add: query_def Let_def split: option.splits sum.splits prod.splits)

lemma trace_client_begin: "trace (snd (client_begin w)) = trace w @ [ClientQuery ''BEGIN'']"
  by (simp add: client_begin_def Let_def split: option.splits)

lemma trace_client_commit: "trace (snd (client_commit w)) = trace w @ [ClientQuery ''COMMIT'']"
  by (simp add: client_commit_def Let_def split: option.splits)

lemma trace_client_rollback:
  "trace (snd (client_rollback w)) = trace w @ [ClientQuery ''ROLLBACK'']"
  by (simp add: client_rollback_def Let_def split: option.splits)

lemma store_client_rollback: "store (snd (client_rollback w)) = store w"
  by (simp add: client_rollback_def Let_def split: option.splits)

lemma pool_connect_cases:
  "(\<exists>e. pool_connect w = (Inl e, called [] w)) \<or>
   pool_connect w = (Inr (), (called [Connect] w)\<lparr>tx := None\<rparr>)"
  by (simp add: pool_connect_def split: option.splits)

subsection \<open>Actions that leave the pool alone\<close>

lemma silentI:
  assumes "\<And>w. \<exists>evs. trace (snd (m w)) = trace w @ evs \<and> Connect \<notin> set evs \<and> Release \<notin> set evs"
  shows "silent m"
  using assms by (simp add: silent_def)

lemma silentD:
  assumes "silent m" and "m w = (r, w')"
  shows "\<exists>evs. trace w' = trace w @ evs \<and> Connect \<notin> set evs \<and> Release \<notin> set evs"
  using assms unfolding silent_def by (metis snd_conv)

lemma silent_return [simp]: "silent (return x)"
  by (simp add: silent_def return_def)

lemma silent_throw [simp]: "silent (throw e)"
  by (simp add: silent_def throw_def)

lemma silent_client_query [simp]: "silent (client_query sql run)"
  by (rule silentI) (simp add: trace_client_query)

lemma silent_query [simp]: "silent (query sql run)"
  by (rule silentI) (simp add: trace_query)

lemma silent_client_begin [simp]: "silent client_begin"
  by (rule silentI) (simp add: trace_client_begin)

lemma silent_client_commit [simp]: "silent client_commit"
  by (rule silentI) (simp add: trace_client_commit)

lemma silent_await:
  assumes "silent m" and "\<And>x. silent (f x)"
  shows "silent (await m f)"
proof (rule silentI)
  fix w
  obtain r w1 where m: "m w = (r, w1)" by (cases "m w")
  from silentD[OF assms(1) m] obtain e1 where
    e1: "trace w1 = trace w @ e1" "Connect \<notin> set e1" "Release \<notin> set e1" by blast
  show "\<exists>evs. trace (snd (await m f w)) = trace w @ evs \<and> Connect \<notin> set evs \<and> Release \<notin> set evs"
  proof (cases r)
    case (Inl e)
    then show ?thesis using m e1 by (auto simp: await_def)
  next
    case (Inr x)
    from assms(2)[of x] obtain e2 where
      e2: "trace (snd (f x w1)) = trace w1 @ e2" "Connect \<notin> set e2" "Release \<notin> set e2"
      unfolding silent_def by blast
    have "trace (snd (await m f w)) = trace w @ (e1 @ e2)"
      using Inr m e1 e2 by (simp add: await_def)
    moreover have "Connect \<notin> set (e1 @ e2)" "Release \<notin> set (e1 @ e2)"
      using e1 e2 by auto
    ultimately show ?thesis by blast
  qed
qed

lemma silent_if: "silent a \<Longrightarrow> silent b \<Longrightarrow> silent (if c then a else b)"
  by simp

lemma silent_insert_items [simp]: "silent (insert_items oid its)"
  by (induction its) (auto simp: insertOrderItem_def intro: silent_await)

lemma silent_createOrder_try [simp]: "silent (createOrder_try m)"
  unfolding createOrder_try_def
  by (intro silent_await silent_return) (simp_all add: insertOrder_def)

lemma silent_updateOrder_try [simp]: "silent (updateOrder_try oid m)"
  unfolding updateOrder_try_def
  by (intro silent_await silent_return silent_if silent_throw)
     (simp_all add: findOrderById_def updateOrderHeader_def)

lemma silent_updateItemOrder_try [simp]: "silent (updateItemOrder_try oid pid item)"
  unfolding updateItemOrder_try_def
  by (intro silent_await silent_return silent_if silent_throw)
     (simp_all add: updateOrderItem_def)

subsection \<open>The try, catch and finally block\<close>

lemma try_rollback_release_trace:
  assumes "silent body"
  shows "\<exists>mid. trace (snd (try_rollback_release body w)) = trace w @ mid @ [Release] \<and>
           Connect \<notin> set mid \<and> Release \<notin> set mid \<and>
           (isl (fst (try_rollback_release body w)) \<longrightarrow>
              mid \<noteq> [] \<and> last mid = ClientQuery ''ROLLBACK'')"
proof -
  obtain r w1 where b: "body w = (r, w1)" by (cases "body w")
  from silentD[OF assms b] obtain e1 where
    e1: "trace w1 = trace w @ e1" "Connect \<notin> set e1" "Release \<notin> set e1" by blast
  show ?thesis
  proof (cases r)
    case (Inr x)
    then have "trace (snd (try_rollback_release body w)) = trace w @ e1 @ [Release]"
      and "\<not> isl (fst (try_rollback_release body w))"
      using b e1 by (simp_all add: try_rollback_release_def client_release_def)
    then show ?thesis using e1 by blast
  next
    case (Inl e)
    obtain r2 w2 where rb: "client_rollback w1 = (r2, w2)" by (cases "client_rollback w1")
    have t2: "trace w2 = trace w1 @ [ClientQuery ''ROLLBACK'']"
      using trace_client_rollback[of w1] rb by simp
    have "trace (snd (try_rollback_release body w)) =
            trace w @ (e1 @ [ClientQuery ''ROLLBACK'']) @ [Release]"
      using Inl b rb t2 e1
      by (cases r2) (simp_all add: try_rollback_release_def client_release_def)
    moreover have "Connect \<notin> set (e1 @ [ClientQuery ''ROLLBACK''])"
      "Release \<notin> set (e1 @ [ClientQuery ''ROLLBACK''])"
      using e1 by auto
    moreover have "e1 @ [ClientQuery ''ROLLBACK''] \<noteq> []"
      "last (e1 @ [ClientQuery ''ROLLBACK'']) = ClientQuery ''ROLLBACK''"
      by simp_all
    ultimately show ?thesis by blast
  qed
qed

lemma try_rollback_release_Inr:
  "try_rollback_release body w = (Inr x, w') \<Longrightarrow> \<exists>w1. body w = (Inr x, w1)"
  by (auto simp: try_rollback_release_def split: prod.splits sum.splits)

lemma connection_scoped_none_added:
  assumes "Connect \<notin> set pre" and "Release \<notin> set pre"
  shows "connection_scoped before (before @ pre) failed"
proof -
  have tw: "takeWhile (\<lambda>e. e \<noteq> Connect) pre = pre"
    using assms(1) by (induction pre) auto
  show ?thesis
    using assms by (simp add: connection_scoped_def Let_def tw)
qed

lemma connection_scoped_one:
  assumes "Connect \<notin> set pre" "Release \<notin> set pre" "Connect \<notin> set mid" "Release \<notin> set mid"
    and "failed \<longrightarrow> mid \<noteq> [] \<and> last mid = ClientQuery ''ROLLBACK''"
  shows "connection_scoped before (before @ pre @ [Connect] @ mid @ [Release]) failed"
proof -
  let ?evs = "pre @ Connect # mid @ [Release]"
  have tw: "takeWhile (\<lambda>e. e \<noteq> Connect) ?evs = pre"
    using assms(1) by (induction pre) auto
  have dr: "drop (Suc (length pre)) ?evs = mid @ [Release]"
    by simp
  have e: "drop (length before) (before @ ?evs) = ?evs"
    by simp
  have "take (length before) (before @ ?evs) = before \<and> Release \<notin> set pre \<and>
         (Connect \<in> set ?evs \<longrightarrow>
            mid @ [Release] \<noteq> [] \<and> last (mid @ [Release]) = Release \<and>
            Connect \<notin> set (butlast (mid @ [Release])) \<and>
            Release \<notin> set (butlast (mid @ [Release])) \<and>
            (failed \<longrightarrow> butlast (mid @ [Release]) \<noteq> [] \<and>
               last (butlast (mid @ [Release])) = ClientQuery ''ROLLBACK''))"
    using assms(2-5) by simp
  then have "connection_scoped before (before @ ?evs) failed"
    unfolding connection_scoped_def Let_def e tw dr .
  then show ?thesis by simp
qed

lemma connect_then_try_scoped:
  assumes "silent body" and "trace w = before @ pre"
    and "Connect \<notin> set pre" and "Release \<notin> set pre"
  shows "connection_scoped before
           (trace (snd (await pool_connect (\<lambda>client. try_rollback_release body) w)))
           (isl (fst (await pool_connect (\<lambda>client. try_rollback_release body) w)))"
proof -
  from pool_connect_cases[of w] show ?thesis
  proof
    assume "\<exists>e. pool_connect w = (Inl e, called [] w)"
    then have "trace (snd (await pool_connect (\<lambda>client. try_rollback_release body) w)) =
                 before @ pre"
      using assms(2) by (auto simp: await_def)
    then show ?thesis
      using connection_scoped_none_added[OF assms(3,4)] by simp
  next
    let ?w1 = "(called [Connect] w)\<lparr>tx := None\<rparr>"
    assume c: "pool_connect w = (Inr (), ?w1)"
    from try_rollback_release_trace[OF assms(1), of ?w1] obtain mid where
      mid: "trace (snd (try_rollback_release body ?w1)) = trace ?w1 @ mid @ [Release]"
        "Connect \<notin> set mid" "Release \<notin> set mid"
        "isl (fst (try_rollback_release body ?w1)) \<longrightarrow>
           mid \<noteq> [] \<and> last mid = ClientQuery ''ROLLBACK''"
      by blast
    have eq: "await pool_connect (\<lambda>client. try_rollback_release body) w =
                try_rollback_release body ?w1"
      using c by (simp add: await_def)
    have "trace (snd (try_rollback_release body ?w1)) =
            before @ pre @ [Connect] @ mid @ [Release]"
      using mid(1) assms(2) by simp
    then show ?thesis
      unfolding eq
      using connection_scoped_one[OF assms(3,4) mid(2,3) mid(4), of before] by simp
  qed
qed

subsection \<open>Statements inside a transaction\<close>

lemma client_begin_store:
  assumes "client_begin w = (r, w')"
  shows "store w' = store w \<and> (\<not> isl r \<longrightarrow> tx w = None \<longrightarrow> tx w' = Some (store w))"
  using assms by (auto simp: client_begin_def Let_def split: option.splits)

lemma client_query_in_tx:
  assumes "tx w = Some d" and "client_query sql run w = (r, w')"
  shows "store w' = store w \<and>
         (case r of Inl e \<Rightarrow> True | Inr q \<Rightarrow> \<exists>d'. run d = Inr (q, d') \<and> tx w' = Some d')"
  using assms by (auto simp: client_query_def Let_def split: option.splits sum.splits)

lemma insert_item_sql_Inr:
  assumes "insert_item_sql oid (productId item) (quantity item) (price item) d = Inr (q, d')"
  shows "d' = d\<lparr>Items := Items d @ [item_row_of oid item]\<rparr>"
  using assms
  by (auto simp: insert_item_sql_def item_row_of_def split: jsnum.splits if_splits)

lemma has_order_Items [simp]: "has_order (d\<lparr>Items := xs\<rparr>) oid = has_order d oid"
  by (simp add: has_order_def)

lemma insert_items_in_tx:
  assumes "tx w = Some d" and "insert_items oid its w = (r, w')"
  shows "store w' = store w \<and>
         (\<not> isl r \<longrightarrow> tx w' = Some (d\<lparr>Items := Items d @ map (item_row_of oid) its\<rparr>))"
  using assms
proof (induction its arbitrary: w d)
  case Nil
  then show ?case by (auto simp: return_def)
next
  case (Cons item rest)
  obtain r1 w1 where s: "insertOrderItem oid item w = (r1, w1)"
    by (cases "insertOrderItem oid item w")
  from client_query_in_tx[OF Cons.prems(1) s[unfolded insertOrderItem_def]]
  have st: "store w1 = store w"
    and tx1: "case r1 of Inl e \<Rightarrow> True
              | Inr q \<Rightarrow> \<exists>d'. insert_item_sql oid (productId item) (quantity item) (price item) d = Inr (q, d') \<and> tx w1 = Some d'"
    by simp_all
  show ?case
  proof (cases r1)
    case (Inl e)
    then show ?thesis using Cons.prems(2) s st by (auto simp: await_def)
  next
    case (Inr q)
    with tx1 obtain d' where
      d': "insert_item_sql oid (productId item) (quantity item) (price item) d = Inr (q, d')"
      and t1: "tx w1 = Some d'" by auto
    have d'eq: "d' = d\<lparr>Items := Items d @ [item_row_of oid item]\<rparr>"
      using insert_item_sql_Inr[OF d'] .
    have rest: "insert_items oid rest w1 = (r, w')"
      using Cons.prems(2) s Inr by (simp add: await_def)
    from Cons.IH[OF t1 rest] show ?thesis
      using st by (simp add: d'eq)
  qed
qed

lemma client_commit_store:
  assumes "client_commit w = (r, w')"
  shows "case r of Inl e \<Rightarrow> store w' = store w
         | Inr u \<Rightarrow> store w' = (case tx w of Some d \<Rightarrow> d | None \<Rightarrow> store w)"
  using assms by (auto simp: client_commit_def Let_def split: option.splits)

lemma insert_order_sql_Inr:
  assumes "insert_order_sql (orderId m) (value m) (creationDate m) d = Inr (q, d')"
  shows "\<exists>t. parse_iso (creationDate m) = Some t \<and> \<not> has_order d (orderId m) \<and>
             d' = d\<lparr>Orders := Orders d @ [order_row_of m t]\<rparr>"
  using assms
  by (auto simp: insert_order_sql_def order_row_of_def split: option.splits if_splits)

lemma createOrder_try_store:
  assumes "tx w = None" and "createOrder_try m w = (r, w')"
  shows "case r of
           Inl e \<Rightarrow> store w' = store w
         | Inr c \<Rightarrow> c = \<lparr>created_orderId = orderId m, created_data = m\<rparr> \<and>
             (\<exists>t. parse_iso (creationDate m) = Some t \<and> \<not> has_order (store w) (orderId m) \<and>
                  store w' = \<lparr>Orders = Orders (store w) @ [order_row_of m t],
                              Items = Items (store w) @ map (item_row_of (orderId m)) (items m)\<rparr>)"
proof -
  obtain r1 w1 where b: "client_begin w = (r1, w1)" by (cases "client_begin w")
  from client_begin_store[OF b] assms(1)
  have s1: "store w1 = store w" and t1: "\<not> isl r1 \<longrightarrow> tx w1 = Some (store w)" by simp_all
  show ?thesis
  proof (cases r1)
    case (Inl e)
    then show ?thesis using assms(2) b s1 by (auto simp: createOrder_try_def await_def)
  next
    case (Inr u1)
    then have tx1: "tx w1 = Some (store w)" using t1 by simp
    obtain r2 w2 where i: "insertOrder m w1 = (r2, w2)" by (cases "insertOrder m w1")
    from client_query_in_tx[OF tx1 i[unfolded insertOrder_def]]
    have s2: "store w2 = store w1"
      and t2: "case r2 of Inl e \<Rightarrow> True
               | Inr q \<Rightarrow> \<exists>d'. insert_order_sql (orderId m) (value m) (creationDate m) (store w) = Inr (q, d') \<and> tx w2 = Some d'"
      by simp_all
    show ?thesis
    proof (cases r2)
      case (Inl e)
      then show ?thesis using assms(2) b Inr i s1 s2 by (auto simp: createOrder_try_def await_def)
    next
      case r2: (Inr q)
      with t2 obtain d' where
        d': "insert_order_sql (orderId m) (value m) (creationDate m) (store w) = Inr (q, d')"
        and tx2: "tx w2 = Some d'" by auto
      from insert_order_sql_Inr[OF d'] obtain t where
        t: "parse_iso (creationDate m) = Some t" "\<not> has_order (store w) (orderId m)"
           "d' = (store w)\<lparr>Orders := Orders (store w) @ [order_row_of m t]\<rparr>" by blast
      obtain r3 w3 where l: "insert_items (orderId m) (items m) w2 = (r3, w3)"
        by (cases "insert_items (orderId m) (items m) w2")
      from insert_items_in_tx[OF tx2 l]
      have s3: "store w3 = store w2"
        and t3: "\<not> isl r3 \<longrightarrow> tx w3 = Some (d'\<lparr>Items := Items d' @ map (item_row_of (orderId m)) (items m)\<rparr>)"
        by simp_all
      show ?thesis
      proof (cases r3)
        case (Inl e)
        then show ?thesis using assms(2) b Inr i r2 l s1 s2 s3
          by (auto simp: createOrder_try_def await_def)
      next
        case r3: (Inr u3)
        then have tx3: "tx w3 = Some (d'\<lparr>Items := Items d' @ map (item_row_of (orderId m)) (items m)\<rparr>)"
          using t3 by simp
        obtain r4 w4 where c: "client_commit w3 = (r4, w4)" by (cases "client_commit w3")
        from client_commit_store[OF c]
        have s4: "case r4 of Inl e \<Rightarrow> store w4 = store w3
                  | Inr u \<Rightarrow> store w4 = (case tx w3 of Some d \<Rightarrow> d | None \<Rightarrow> store w3)" .
        have res: "createOrder_try m w = (case r4 of Inl e \<Rightarrow> (Inl e, w4)
                     | Inr u \<Rightarrow> (Inr \<lparr>created_orderId = orderId m, created_data = m\<rparr>, w4))"
          using b Inr i r2 l r3 c
          by (simp add: createOrder_try_def await_def return_def split: sum.splits)
        show ?thesis
        proof (cases r4)
          case (Inl e)
          then show ?thesis using assms(2) res s4 s3 s2 s1 by auto
        next
          case (Inr u4)
          then have "store w4 = d'\<lparr>Items := Items d' @ map (item_row_of (orderId m)) (items m)\<rparr>"
            using s4 tx3 by simp
          then have "store w4 = \<lparr>Orders = Orders (store w) @ [order_row_of m t],
                              Items = Items (store w) @ map (item_row_of (orderId m)) (items m)\<rparr>"
            using t(3) by simp
          then show ?thesis using assms(2) res Inr t by auto
        qed
      qed
    qed
  qed
qed

lemma await_Inr:
  assumes "await m f w = (Inr x, w')"
  shows "\<exists>y w1. m w = (Inr y, w1) \<and> f y w1 = (Inr x, w')"
  using assms by (auto simp: await_def split: prod.splits sum.splits)

lemma createOrder_try_commit_trace:
  assumes "createOrder_try m w = (Inr c, w')"
  shows "\<exists>evs. trace w' = trace w @ evs @ [ClientQuery ''COMMIT'']"
proof -
  from await_Inr[OF assms[unfolded createOrder_try_def]] obtain u1 w1 where
    s1: "client_begin w = (Inr u1, w1)"
    and r1: "await (insertOrder m) (\<lambda>r.
             await (insert_items (orderId m) (items m)) (\<lambda>u.
             await client_commit (\<lambda>c.
             return \<lparr>created_orderId = orderId m, created_data = m\<rparr>))) w1 = (Inr c, w')"
    by blast
  from await_Inr[OF r1] obtain u2 w2 where
    s2: "insertOrder m w1 = (Inr u2, w2)"
    and r2: "await (insert_items (orderId m) (items m)) (\<lambda>u.
             await client_commit (\<lambda>c.
             return \<lparr>created_orderId = orderId m, created_data = m\<rparr>)) w2 = (Inr c, w')"
    by blast
  from await_Inr[OF r2] obtain u3 w3 where
    s3: "insert_items (orderId m) (items m) w2 = (Inr u3, w3)"
    and r3: "await client_commit (\<lambda>c.
             return \<lparr>created_orderId = orderId m, created_data = m\<rparr>) w3 = (Inr c, w')"
    by blast
  from await_Inr[OF r3] obtain u4 w4 where
    s4: "client_commit w3 = (Inr u4, w4)"
    and r4: "return \<lparr>created_orderId = orderId m, created_data = m\<rparr> w4 = (Inr c, w')"
    by blast
  have w4: "w' = w4" using r4 by (simp add: return_def)
  have t1: "trace w1 = trace w @ [ClientQuery ''BEGIN'']"
    using trace_client_begin[of w] s1 by simp
  have t2: "trace w2 = trace w1 @ [ClientQuery ''INSERT INTO Orders'']"
    using trace_client_query[of "''INSERT INTO Orders''"
        "insert_order_sql (orderId m) (value m) (creationDate m)" w1] s2
    by (simp add: insertOrder_def)
  from silentD[OF silent_insert_items s3] obtain e3 where t3: "trace w3 = trace w2 @ e3"
    by blast
  have t4: "trace w4 = trace w3 @ [ClientQuery ''COMMIT'']"
    using trace_client_commit[of w3] s4 by simp
  have "trace w' = trace w @ ([ClientQuery ''BEGIN'', ClientQuery ''INSERT INTO Orders''] @ e3) @
          [ClientQuery ''COMMIT'']"
    using w4 t1 t2 t3 t4 by simp
  then show ?thesis by blast
qed

lemma updateItemOrder_try_Inr:
  "updateItemOrder_try oid pid item w = (Inr b, w') \<Longrightarrow> b"
  by (auto simp: updateItemOrder_try_def await_def return_def throw_def
           split: prod.splits sum.splits if_splits)

section \<open>Properties of the mapper\<close>


lemma Get_JObj [simp]: "Get (JObj kvs) k = Inr (lookup kvs k)"
  by (simp add: Get_def)




section \<open>Atomicity of createOrder\<close>

text \<open>
  Claim C1, as stated, does not hold when the \<open>ROLLBACK\<close> is rejected as well. On an empty
  store, let the connection be lost while the header is inserted: the \<open>try\<close> block fails with
  the driver's error for the \<open>INSERT\<close>, the \<open>ROLLBACK\<close> of the \<open>catch\<close> block is rejected in
  turn, and it is this second error that \<open>createOrder\<close> throws, not the original one.
\<close>

theorem createOrder_rollback_error_replaces_original:
  "fst (createOrder_try
          \<lparr>orderId = ''1001'', value = JNum (Fin (199 / 2)),
           creationDate = ''2024-01-01T00:00:00.000Z'',
           items = [\<lparr>productId = Fin 7, quantity = JNum (Fin 2), price = JNum (Fin 10)\<rparr>]\<rparr>
          (snd (pool_connect
             (fresh \<lparr>Orders = [], Items = []\<rparr>
                [None, None, Some (Error ''Connection terminated unexpectedly''),
                 Some (Error ''Client has encountered a connection error and is not queryable'')]))))
     = Inl (Error ''Connection terminated unexpectedly'') \<and>
   fst (createOrder strict_engine example_payload
          (fresh \<lparr>Orders = [], Items = []\<rparr>
             [None, None, Some (Error ''Connection terminated unexpectedly''),
              Some (Error ''Client has encountered a connection error and is not queryable'')]))
     = Inl (Error ''Client has encountered a connection error and is not queryable'')"
  by code_simp

text \<open>
  Claim C1, amended. For every payload, engine, store and faults of the driver,
  \<open>createOrder\<close> ends in one of two ways. Either it returns the order id and the mapped data,
  and the committed tables are those before the call with exactly one header row added and
  one item row for each element of the items array, in the array's order, the last calls
  being \<open>COMMIT\<close> and the release. Or it throws and the committed tables are unchanged:
  the mapper's error, before anything is sent; or the error of \<open>pool.connect\<close>; or, for a
  failure inside the \<open>try\<close> block (a duplicate order id among them), after a \<open>ROLLBACK\<close> and
  the release, the block's own error when the \<open>ROLLBACK\<close> went through, and the error of the
  \<open>ROLLBACK\<close> when it did not.
\<close>

theorem createOrder_atomic:
  assumes "createOrder eng inputBody w = (r, w')"
  shows "(\<exists>m t evs. mapToDatabaseFormat eng inputBody = Inr m \<and>
            parse_iso (creationDate m) = Some t \<and>
            r = Inr \<lparr>created_orderId = orderId m, created_data = m\<rparr> \<and>
            store w' = \<lparr>Orders = Orders (store w) @ [order_row_of m t],
                        Items = Items (store w) @ map (item_row_of (orderId m)) (items m)\<rparr> \<and>
            trace w' = trace w @ [Connect] @ evs @ [ClientQuery ''COMMIT'', Release])
       \<or> (\<exists>e. r = Inl e \<and> store w' = store w \<and>
            (mapToDatabaseFormat eng inputBody = Inl e
             \<or> (\<exists>m. mapToDatabaseFormat eng inputBody = Inr m \<and> fst (pool_connect w) = Inl e)
             \<or> (\<exists>m w1 e0 w2.
                   mapToDatabaseFormat eng inputBody = Inr m \<and>
                   pool_connect w = (Inr (), w1) \<and>
                   createOrder_try m w1 = (Inl e0, w2) \<and>
                   e = (case fst (client_rollback w2) of Inl e' \<Rightarrow> e' | Inr u \<Rightarrow> e0) \<and>
                   trace w' = trace w2 @ [ClientQuery ''ROLLBACK'', Release])))"
proof (cases "mapToDatabaseFormat eng inputBody")
  case (Inl e)
  then have "r = Inl e" "w' = w" using assms by (auto simp: createOrder_def throw_def)
  then show ?thesis using Inl by blast
next
  case m: (Inr m)
  have run: "await pool_connect (\<lambda>client. try_rollback_release (createOrder_try m)) w = (r, w')"
    using assms m by (simp add: createOrder_def)
  from pool_connect_cases[of w] show ?thesis
  proof
    assume "\<exists>e. pool_connect w = (Inl e, called [] w)"
    then obtain e where c: "pool_connect w = (Inl e, called [] w)" by blast
    then have "r = Inl e" "w' = called [] w" using run by (auto simp: await_def)
    then show ?thesis using m c by auto
  next
    let ?w1 = "(called [Connect] w)\<lparr>tx := None\<rparr>"
    assume c: "pool_connect w = (Inr (), ?w1)"
    have blk: "try_rollback_release (createOrder_try m) ?w1 = (r, w')"
      using run c by (simp add: await_def)
    obtain r0 w2 where b: "createOrder_try m ?w1 = (r0, w2)"
      by (cases "createOrder_try m ?w1")
    have tx1: "tx ?w1 = None" by simp
    note st = createOrder_try_store[OF tx1 b]
    show ?thesis
    proof (cases r0)
      case (Inr cr)
      then have res: "r = Inr cr" "w' = client_release w2"
        using blk b by (auto simp: try_rollback_release_def)
      from st Inr obtain t where
        t: "cr = \<lparr>created_orderId = orderId m, created_data = m\<rparr>"
           "parse_iso (creationDate m) = Some t"
           "store w2 = \<lparr>Orders = Orders (store w) @ [order_row_of m t],
                        Items = Items (store w) @ map (item_row_of (orderId m)) (items m)\<rparr>"
        by auto
      from createOrder_try_commit_trace[OF b[unfolded Inr]] obtain evs where
        "trace w2 = trace ?w1 @ evs @ [ClientQuery ''COMMIT'']" by blast
      then have "trace w' = trace w @ [Connect] @ evs @ [ClientQuery ''COMMIT'', Release]"
        using res by (simp add: client_release_def)
      moreover have "store w' = store w2" using res by (simp add: client_release_def)
      ultimately show ?thesis using m t res by auto
    next
      case (Inl e0)
      obtain rb w3 where rb: "client_rollback w2 = (rb, w3)" by (cases "client_rollback w2")
      have res: "r = Inl (case rb of Inl e' \<Rightarrow> e' | Inr u \<Rightarrow> e0)" "w' = client_release w3"
        using blk b Inl rb by (auto simp: try_rollback_release_def split: sum.splits)
      have s3: "store w3 = store w2" using store_client_rollback[of w2] rb by simp
      have t3: "trace w3 = trace w2 @ [ClientQuery ''ROLLBACK'']"
        using trace_client_rollback[of w2] rb by simp
      have "store w2 = store w" using st Inl by simp
      then have "store w' = store w" using res s3 by (simp add: client_release_def)
      moreover have "trace w' = trace w2 @ [ClientQuery ''ROLLBACK'', Release]"
        using res t3 by (simp add: client_release_def)
      moreover have "(case rb of Inl e' \<Rightarrow> e' | Inr u \<Rightarrow> e0) =
                       (case fst (client_rollback w2) of Inl e' \<Rightarrow> e' | Inr u \<Rightarrow> e0)"
        using rb by simp
      ultimately show ?thesis using m c b Inl res(1) by blast
    qed
  qed
qed

text \<open>
  The statement at work on a duplicate: creating the example order in a store that already
  holds order 1001 throws the database's duplicate-key error 23505 and leaves the tables as
  they were.
\<close>

theorem createOrder_atomic_witness:
  "fst (createOrder strict_engine example_payload (fresh example_db [])) =
     Inl (DatabaseError ''23505'') \<and>
   store (snd (createOrder strict_engine example_payload (fresh example_db []))) = example_db"
proof -
  obtain r w' where
    h: "createOrder strict_engine example_payload (fresh example_db []) = (r, w')"
    by (cases "createOrder strict_engine example_payload (fresh example_db [])")
  have e: "fst (createOrder strict_engine example_payload (fresh example_db [])) =
             Inl (DatabaseError ''23505'')"
    by code_simp
  then have r: "r = Inl (DatabaseError ''23505'')" using h by simp
  from createOrder_atomic[OF h] r have "store w' = store (fresh example_db [])" by auto
  then show ?thesis using h e by (simp add: fresh_def)
qed

text \<open>
  The duplicate in general: when the driver rejects nothing, creating an order whose id is
  already in the store throws the duplicate-key error 23505 and leaves the tables as they
  were.
\<close>

lemma createOrder_duplicate:
  assumes "mapToDatabaseFormat eng inputBody = Inr m"
    and "has_order (store w) (orderId m)"
    and "parse_iso (creationDate m) = Some t"
    and "faults w = []"
  shows "fst (createOrder eng inputBody w) = Inl (DatabaseError ''23505'') \<and>
         store (snd (createOrder eng inputBody w)) = store w"
  using assms
  by (simp add: createOrder_def createOrder_try_def try_rollback_release_def await_def
      pool_connect_def client_begin_def client_rollback_def client_release_def insertOrder_def
      client_query_def insert_order_sql_def next_fault_def called_def Let_def)

section \<open>The mapper on the specification's example\<close>

text \<open>
  Claim C2. The mapper turns the example payload of the specification, order number
  \<open>1001-01\<close>, creation date \<open>2024-01-01T00:00:00+00:00\<close>, total 99.5 and one item with id
  \<open>"7"\<close>, quantity 2 and price 10.0, into the order id \<open>1001\<close> (the part before the first
  hyphen), the creation date \<open>2024-01-01T00:00:00.000Z\<close>, the total passed through, and the
  item with product id 7 read from the string. This holds on every engine.
\<close>

theorem mapToDatabaseFormat_example:
  "mapToDatabaseFormat eng
     (JObj [(''numeroPedido'', JStr ''1001-01''),
            (''dataCriacao'', JStr ''2024-01-01T00:00:00+00:00''),
            (''valorTotal'', JNum (Fin (199 / 2))),
            (''items'', JArr [JObj [(''idItem'', JStr ''7''),
                                    (''quantidadeItem'', JNum (Fin 2)),
                                    (''valorItem'', JNum (Fin 10))]])])
   = Inr \<lparr>orderId = ''1001'', value = JNum (Fin (199 / 2)),
          creationDate = ''2024-01-01T00:00:00.000Z'',
          items = [\<lparr>productId = Fin 7, quantity = JNum (Fin 2), price = JNum (Fin 10)\<rparr>]\<rparr>"
  by code_simp

section \<open>Validation in updateItemOrder\<close>

text \<open>
  Claim C3. The two spellings of a field are combined with \<open>||\<close>, which passes over every
  falsy value, not only over an absent one. An update that supplies the quantity 0 (under
  \<open>quantidadeItem\<close>, with a price) is therefore rejected with the validation error, for
  every order, product and state of the world, and nothing is read or written.
\<close>

theorem updateItemOrder_zero_quantity_rejected:
  "updateItemOrder oid pid
     (JObj [(''quantidadeItem'', JNum (Fin 0)), (''valorItem'', JNum (Fin 10))]) w
   = (Inl (Error invalid_item_message), w)"
  by (simp add: updateItemOrder_def read_itemData_def either_field_def Get_def lookup_def
      bind_def throw_def)

section \<open>What makes the mapper fail\<close>




section \<open>The not-found paths\<close>

text \<open>
  Claim C5. Asking for the details of an order that has no header row does not throw the
  not-found exception: the expression that constructs it names a class the module never
  imported, and a \<open>ReferenceError\<close> is thrown in its place.
\<close>

theorem getOrderDetails_missing_order:
  "getOrderDetails eng ''9999''
     \<lparr>store = \<lparr>Orders = [], Items = []\<rparr>, tx = None, faults = [], trace = []\<rparr>
   = (Inl (ReferenceError ''ResourceNotFoundException''),
      \<lparr>store = \<lparr>Orders = [], Items = []\<rparr>, tx = None, faults = [],
       trace = [PoolQuery ''SELECT FROM Orders'']\<rparr>)"
  by code_simp

text \<open>
  The other half of the claim holds: when the driver lets both reads through and the order
  has a header row, the result is built from that row and from all the item rows of the
  order. Its total and its prices are numbers by their type, its creation date is the ISO
  string of the row's date.
\<close>

lemma getOrderDetails_found:
  assumes "faults w = []"
    and "filter (\<lambda>r. o_orderid r = oid) (Orders (store w)) = row # others"
  shows "fst (getOrderDetails eng oid w) =
           Inr (formatOrderResponse eng row (filter (\<lambda>r. i_orderid r = oid) (Items (store w))))"
  using assms
  by (simp add: getOrderDetails_def findOrderById_def findItemsByOrderId_def query_def
      select_order_sql_def select_items_sql_def await_def return_def next_fault_def called_def
      Let_def)

text \<open>
  Claim C6. Updating product 8 of an existing order that only has product 7 affects no
  row. The transaction is rolled back, the client released and the tables are unchanged,
  but what is thrown is the \<open>ReferenceError\<close>, not the not-found exception.
\<close>

theorem updateItemOrder_missing_item:
  "updateItemOrder ''1001'' 8
     (JObj [(''quantidadeItem'', JNum (Fin 5)), (''valorItem'', JNum (Fin 3))])
     \<lparr>store = \<lparr>Orders = [\<lparr>o_orderid = ''1001'', o_value = JStr ''99.50'',
                            o_creationdate = 1704067200000\<rparr>],
               Items = [\<lparr>i_orderid = ''1001'', i_productid = 7, i_quantity = JNum (Fin 2),
                          i_price = JStr ''10.00''\<rparr>]\<rparr>,
      tx = None, faults = [], trace = []\<rparr>
   = (Inl (ReferenceError ''ResourceNotFoundException''),
      \<lparr>store = \<lparr>Orders = [\<lparr>o_orderid = ''1001'', o_value = JStr ''99.50'',
                            o_creationdate = 1704067200000\<rparr>],
               Items = [\<lparr>i_orderid = ''1001'', i_productid = 7, i_quantity = JNum (Fin 2),
                          i_price = JStr ''10.00''\<rparr>]\<rparr>,
       tx = None, faults = [],
       trace = [PoolQuery ''SELECT FROM Orders'', Connect, ClientQuery ''BEGIN'',
                ClientQuery ''UPDATE Items'', ClientQuery ''ROLLBACK'', Release]\<rparr>)"
  by code_simp

text \<open>
  Claim C7. Deleting an order id that matches no header row changes nothing in the
  tables, and throws the \<open>ReferenceError\<close> where the not-found exception was meant.
\<close>

theorem deleteOrder_missing_order:
  "deleteOrder ''9999''
     \<lparr>store = \<lparr>Orders = [\<lparr>o_orderid = ''1001'', o_value = JStr ''99.50'',
                            o_creationdate = 1704067200000\<rparr>],
               Items = []\<rparr>,
      tx = None, faults = [], trace = []\<rparr>
   = (Inl (ReferenceError ''ResourceNotFoundException''),
      \<lparr>store = \<lparr>Orders = [\<lparr>o_orderid = ''1001'', o_value = JStr ''99.50'',
                            o_creationdate = 1704067200000\<rparr>],
               Items = []\<rparr>,
       tx = None, faults = [], trace = [PoolQuery ''DELETE FROM Orders'']\<rparr>)"
  by code_simp

text \<open>
  The other half of the claim holds: when the driver lets the statement through, deleting
  an order that exists returns normally and leaves neither its header row nor any of its
  item rows.
\<close>

lemma deleteOrder_existing:
  assumes "faults w = []" and "has_order (store w) oid"
  shows "fst (deleteOrder oid w) = Inr () \<and>
         \<not> has_order (store (snd (deleteOrder oid w))) oid \<and>
         filter (\<lambda>r. i_orderid r = oid) (Items (store (snd (deleteOrder oid w)))) = []"
proof -
  have "filter (\<lambda>r. o_orderid r = oid) (Orders (store w)) \<noteq> []"
    using assms(2) by (auto simp: has_order_def filter_empty_conv)
  then show ?thesis
    using assms(1)
    by (auto simp: deleteOrder_def deleteOrderHeader_def query_def delete_order_sql_def
        await_def return_def throw_def next_fault_def Let_def has_order_def filter_empty_conv)
qed

section \<open>Missing fields in the mapper\<close>




section \<open>Rollback and release on the write paths\<close>

text \<open>
  Claim C9. Whatever the payload, the store and the faults of the driver, each of the three
  transactional workflows, \<open>createOrder\<close>, \<open>updateOrder\<close> and \<open>updateItemOrder\<close>, either
  acquires no client (and then releases none), or acquires exactly one and releases it as
  its last act; and when the workflow throws after acquiring the client, the call just
  before the release is the \<open>ROLLBACK\<close>.
\<close>

theorem write_paths_rollback_and_release:
  "connection_scoped (trace w) (trace (snd (createOrder eng body w)))
     (isl (fst (createOrder eng body w))) \<and>
   connection_scoped (trace w) (trace (snd (updateOrder eng oid body w)))
     (isl (fst (updateOrder eng oid body w))) \<and>
   connection_scoped (trace w) (trace (snd (updateItemOrder oid' pid ibody w)))
     (isl (fst (updateItemOrder oid' pid ibody w)))"
proof (intro conjI)
  have nil: "trace w = trace w @ []" by simp
  show "connection_scoped (trace w) (trace (snd (createOrder eng body w)))
          (isl (fst (createOrder eng body w)))"
  proof (cases "mapToDatabaseFormat eng body")
    case (Inl e)
    then show ?thesis
      using connection_scoped_none_added[of "[]" "trace w"]
      by (simp add: createOrder_def throw_def)
  next
    case (Inr m)
    then show ?thesis
      using connect_then_try_scoped[OF silent_createOrder_try nil, of m]
      by (simp add: createOrder_def)
  qed
  show "connection_scoped (trace w) (trace (snd (updateOrder eng oid body w)))
          (isl (fst (updateOrder eng oid body w)))"
  proof (cases "mapToDatabaseFormat eng body")
    case (Inl e)
    then show ?thesis
      using connection_scoped_none_added[of "[]" "trace w"]
      by (simp add: updateOrder_def throw_def)
  next
    case (Inr m)
    then show ?thesis
      using connect_then_try_scoped[OF silent_updateOrder_try nil, of oid m]
      by (simp add: updateOrder_def)
  qed
  show "connection_scoped (trace w) (trace (snd (updateItemOrder oid' pid ibody w)))
          (isl (fst (updateItemOrder oid' pid ibody w)))"
  proof (cases "read_itemData ibody")
    case (Inl e)
    then show ?thesis
      using connection_scoped_none_added[of "[]" "trace w"]
      by (simp add: updateItemOrder_def throw_def)
  next
    case item: (Inr item)
    show ?thesis
    proof (cases "new_quantity item = JUndefined \<or> new_price item = JUndefined")
      case True
      then show ?thesis
        using item connection_scoped_none_added[of "[]" "trace w"]
        by (simp add: updateItemOrder_def throw_def)
    next
      case valid: False
      obtain r w1 where f: "findOrderById oid' w = (r, w1)"
        by (cases "findOrderById oid' w")
      have t1: "trace w1 = trace w @ [PoolQuery ''SELECT FROM Orders'']"
        using trace_query[of "''SELECT FROM Orders''" "select_order_sql oid'" w] f
        by (simp add: findOrderById_def)
      have before_connect:
        "connection_scoped (trace w) (trace w1) failed" for failed
        unfolding t1 by (rule connection_scoped_none_added) simp_all
      show ?thesis
      proof (cases r)
        case (Inl e)
        then show ?thesis
          using item valid f before_connect by (simp add: updateItemOrder_def await_def)
      next
        case found: (Inr orderResult)
        show ?thesis
        proof (cases "length (rows orderResult) = 0")
          case True
          then show ?thesis
            using item valid f found before_connect
            by (simp add: updateItemOrder_def await_def throw_def)
        next
          case False
          then show ?thesis
            using item valid f found
              connect_then_try_scoped[OF silent_updateItemOrder_try t1, of oid' pid item]
            by (simp add: updateItemOrder_def await_def)
        qed
      qed
    qed
  qed
qed

text \<open>
  The statement at work on three failing runs: a duplicate order, the update of an order
  that does not exist, and an item update whose statement the driver rejects.
\<close>

theorem write_paths_rollback_and_release_witness:
  "isl (fst (createOrder strict_engine example_payload (fresh example_db []))) \<and>
   Connect \<in> set (trace (snd (createOrder strict_engine example_payload (fresh example_db [])))) \<and>
   connection_scoped []
     (trace (snd (createOrder strict_engine example_payload (fresh example_db [])))) True \<and>
   isl (fst (updateOrder strict_engine ''2002'' example_payload (fresh example_db []))) \<and>
   Connect \<in> set (trace (snd (updateOrder strict_engine ''2002'' example_payload
                                  (fresh example_db [])))) \<and>
   connection_scoped []
     (trace (snd (updateOrder strict_engine ''2002'' example_payload (fresh example_db []))))
     True \<and>
   isl (fst (updateItemOrder ''1001'' 7
          (JObj [(''quantity'', JNum (Fin 5)), (''price'', JNum (Fin 3))])
          (fresh example_db [None, None, None, Some (DatabaseError ''08006'')]))) \<and>
   Connect \<in> set (trace (snd (updateItemOrder ''1001'' 7
          (JObj [(''quantity'', JNum (Fin 5)), (''price'', JNum (Fin 3))])
          (fresh example_db [None, None, None, Some (DatabaseError ''08006'')])))) \<and>
   connection_scoped []
     (trace (snd (updateItemOrder ''1001'' 7
          (JObj [(''quantity'', JNum (Fin 5)), (''price'', JNum (Fin 3))])
          (fresh example_db [None, None, None, Some (DatabaseError ''08006'')])))) True"
proof -
  have t: "trace (fresh d fs) = []" for d fs by (simp add: fresh_def)
  have a: "isl (fst (createOrder strict_engine example_payload (fresh example_db [])))"
    "Connect \<in> set (trace (snd (createOrder strict_engine example_payload
                                   (fresh example_db []))))"
    by code_simp+
  have b: "isl (fst (updateOrder strict_engine ''2002'' example_payload (fresh example_db [])))"
    "Connect \<in> set (trace (snd (updateOrder strict_engine ''2002'' example_payload
                                   (fresh example_db []))))"
    by code_simp+
  have c: "isl (fst (updateItemOrder ''1001'' 7
          (JObj [(''quantity'', JNum (Fin 5)), (''price'', JNum (Fin 3))])
          (fresh example_db [None, None, None, Some (DatabaseError ''08006'')])))"
    "Connect \<in> set (trace (snd (updateItemOrder ''1001'' 7
          (JObj [(''quantity'', JNum (Fin 5)), (''price'', JNum (Fin 3))])
          (fresh example_db [None, None, None, Some (DatabaseError ''08006'')]))))"
    by code_simp+
  show ?thesis
    using a b c
      write_paths_rollback_and_release
        [of "fresh example_db []" strict_engine example_payload "''2002''" "''1001''" 7
            "JObj [(''quantity'', JNum (Fin 5)), (''price'', JNum (Fin 3))]"]
      write_paths_rollback_and_release
        [of "fresh example_db [None, None, None, Some (DatabaseError ''08006'')]"
            strict_engine example_payload "''2002''" "''1001''" 7
            "JObj [(''quantity'', JNum (Fin 5)), (''price'', JNum (Fin 3))]"]
    by (simp add: t)
qed

section \<open>The value returned by updateItemOrder\<close>

text \<open>
  Claim C10. Whenever \<open>updateItemOrder\<close> returns, it returns \<open>true\<close>: a statement that
  affected no row has thrown before the \<open>return\<close> is reached.
\<close>

theorem updateItemOrder_returns_true:
  assumes "updateItemOrder oid pid inputItemBody w = (Inr b, w')"
  shows "b = True"
  using assms
  by (auto simp: updateItemOrder_def await_def throw_def
           split: sum.splits if_splits prod.splits
           dest!: try_rollback_release_Inr updateItemOrder_try_Inr)

text \<open>The statement at work: an update of product 7 of order 1001 returns \<open>true\<close>.\<close>

theorem updateItemOrder_returns_true_witness:
  "fst (updateItemOrder ''1001'' 7
          (JObj [(''quantidadeItem'', JNum (Fin 5)), (''valorItem'', JNum (Fin 3))])
          (fresh example_db [])) = Inr True"
proof -
  obtain r w' where h: "updateItemOrder ''1001'' 7
          (JObj [(''quantidadeItem'', JNum (Fin 5)), (''valorItem'', JNum (Fin 3))])
          (fresh example_db []) = (r, w')"
    by (cases "updateItemOrder ''1001'' 7
          (JObj [(''quantidadeItem'', JNum (Fin 5)), (''valorItem'', JNum (Fin 3))])
          (fresh example_db [])")
  have "\<not> isl (fst (updateItemOrder ''1001'' 7
          (JObj [(''quantidadeItem'', JNum (Fin 5)), (''valorItem'', JNum (Fin 3))])
          (fresh example_db [])))"
    by code_simp
  then obtain b where r: "r = Inr b" using h by (cases r) auto
  from updateItemOrder_returns_true[OF h[unfolded r]] have "b = True" .
  then show ?thesis using h r by simp
qed

end
